theory Spec2Isabelle
  imports Complex_Main
begin

section \<open>Scalars of the wire protocol\<close>

text \<open>
  The source is TypeScript; its \<open>number\<close> is an IEEE double. The builder never
  computes with a number: it tests it for truthiness, compares it with zero and passes it
  on unchanged. A number is therefore a finite value (every finite double is a rational;
  the model admits all rationals, a superset) or one of the four special values whose
  tests differ: negative zero, the two infinities and NaN. \<open>Fin 0\<close> is positive zero.
\<close>

datatype jsnumber = Fin rat | NegZero | PosInf | NegInf | NaN

text \<open>\<open>if (x)\<close> on a number: false for \<open>0\<close>, \<open>-0\<close> and \<open>NaN\<close>, true otherwise.\<close>

fun truthy :: "jsnumber \<Rightarrow> bool" where
  "truthy (Fin r) = (r \<noteq> 0)"
| "truthy NegZero = False"
| "truthy PosInf = True"
| "truthy NegInf = True"
| "truthy NaN = False"

text \<open>\<open>x <= 0\<close> on a number: every comparison with NaN is false.\<close>

fun le_zero :: "jsnumber \<Rightarrow> bool" where
  "le_zero (Fin r) = (r \<le> 0)"
| "le_zero NegZero = True"
| "le_zero PosInf = False"
| "le_zero NegInf = True"
| "le_zero NaN = False"

text \<open>\<open>x < 0\<close> on a number.\<close>

fun lt_zero :: "jsnumber \<Rightarrow> bool" where
  "lt_zero (Fin r) = (r < 0)"
| "lt_zero NegZero = False"
| "lt_zero PosInf = False"
| "lt_zero NegInf = True"
| "lt_zero NaN = False"

text \<open>
  Modelled from the spec: the module \<open>./options\<close> is not among the sources. It declares
  \<open>StringOrNumber\<close>, the element type of a command, and \<open>InsertOptions\<close>, which
  ``carries up to four independent optional knobs: errorRate, capacity, expansionRate,
  upsert''. An omitted knob is \<open>undefined\<close> in the source and \<open>None\<close> here.
  Items are declared \<open>any[]\<close> and spread into a \<open>StringOrNumber[]\<close>; they are
  scalars of that type.
\<close>

datatype StringOrNumber = Str string | Num jsnumber

type_synonym command = "StringOrNumber list"

record InsertOptions =
  errorRate :: "jsnumber option"
  capacity :: "jsnumber option"
  expansionRate :: "jsnumber option"
  upsert :: "bool option"

text \<open>The object literal \<open>{}\<close>, the default of \<open>insert\<close>'s second parameter.\<close>

definition no_options :: InsertOptions where
  "no_options = \<lparr>errorRate = None, capacity = None, expansionRate = None, upsert = None\<rparr>"

section \<open>The filter object and its transport\<close>

text \<open>
  Modelled from the spec: the base class \<open>./base-filter\<close> and the client it holds are
  not among the sources. The base class supplies \<open>this.name\<close>, the filter's key, and
  \<open>this.client\<close>; the client is the spec's collaborator \<open>Transport\<close>, which ``accepts
  an ordered sequence of scalar arguments''. The transport is the sequence of commands
  submitted so far, oldest first: \<open>call(...args)\<close> submits its arguments as one command,
  \<open>callOne(cmd)\<close> submits the array it is given. The reply arrives later, through the
  promise, and is outside the model.
\<close>

type_synonym Transport = "command list"

definition call :: "command \<Rightarrow> Transport \<Rightarrow> Transport" where
  "call args t = t @ [args]"

definition callOne :: "command \<Rightarrow> Transport \<Rightarrow> Transport" where
  "callOne cmd t = t @ [cmd]"

record BloomFilter =
  name :: string
  client :: Transport

text \<open>\<open>cmd.push(...xs)\<close>: append in place.\<close>

definition push :: "command \<Rightarrow> StringOrNumber list \<Rightarrow> command" where
  "push cmd xs = cmd @ xs"

section \<open>The operations\<close>

text \<open>
  The value of the local \<open>cmd\<close> of \<open>reserve\<close> when it is submitted. The third
  parameter has the default \<open>2\<close>, taken when the argument is omitted.
\<close>

definition reserve_cmd :: "string \<Rightarrow> jsnumber \<Rightarrow> jsnumber \<Rightarrow> jsnumber option \<Rightarrow> command" where
  "reserve_cmd nm error_rate cap expansion =
     (let rate = (case expansion of None \<Rightarrow> Fin 2 | Some x \<Rightarrow> x)
      in if le_zero rate
         then [Str ''BF.RESERVE'', Str nm, Num error_rate, Num cap, Str ''NONSCALING'']
         else [Str ''BF.RESERVE'', Str nm, Num error_rate, Num cap, Str ''EXPANSION'', Num rate])"

definition reserve :: "BloomFilter \<Rightarrow> jsnumber \<Rightarrow> jsnumber \<Rightarrow> jsnumber option \<Rightarrow> BloomFilter" where
  "reserve this error_rate cap expansion =
     this\<lparr>client := callOne (reserve_cmd (name this) error_rate cap expansion) (client this)\<rparr>"

definition add :: "BloomFilter \<Rightarrow> StringOrNumber \<Rightarrow> BloomFilter" where
  "add this item = this\<lparr>client := call [Str ''BF.ADD'', Str (name this), item] (client this)\<rparr>"

definition madd :: "BloomFilter \<Rightarrow> StringOrNumber list \<Rightarrow> BloomFilter" where
  "madd this items =
     this\<lparr>client := call (Str ''BF.MADD'' # Str (name this) # items) (client this)\<rparr>"

definition exists :: "BloomFilter \<Rightarrow> StringOrNumber \<Rightarrow> BloomFilter" where
  "exists this item =
     this\<lparr>client := call [Str ''BF.EXISTS'', Str (name this), item] (client this)\<rparr>"

definition mexists :: "BloomFilter \<Rightarrow> StringOrNumber list \<Rightarrow> BloomFilter" where
  "mexists this items =
     this\<lparr>client := call (Str ''BF.MEXISTS'' # Str (name this) # items) (client this)\<rparr>"

definition info :: "BloomFilter \<Rightarrow> BloomFilter" where
  "info this = this\<lparr>client := call [Str ''BF.INFO'', Str (name this)] (client this)\<rparr>"

text \<open>
  The value of the local \<open>cmd\<close> of \<open>insert\<close> when it is submitted. The second
  argument may be omitted (\<open>None\<close>), which gives \<open>{}\<close>; \<open>upsert\<close> has the default
  \<open>true\<close>; an omitted number is \<open>undefined\<close>, which is falsy.
\<close>

definition insert_cmd :: "string \<Rightarrow> StringOrNumber list \<Rightarrow> InsertOptions option \<Rightarrow> command" where
  "insert_cmd nm items options =
     (let opts = (case options of None \<Rightarrow> no_options | Some given \<Rightarrow> given);
          ups = (case upsert opts of None \<Rightarrow> True | Some b \<Rightarrow> b);
          cmd = [Str ''BF.INSERT'', Str nm];
          cmd = (case errorRate opts of
                   None \<Rightarrow> cmd
                 | Some e \<Rightarrow> if truthy e then push cmd [Str ''ERROR'', Num e] else cmd);
          cmd = (case capacity opts of
                   None \<Rightarrow> cmd
                 | Some c \<Rightarrow> if truthy c then push cmd [Str ''CAPACITY'', Num c] else cmd);
          cmd = (case expansionRate opts of
                   None \<Rightarrow> cmd
                 | Some x \<Rightarrow>
                     if truthy x
                     then (if lt_zero x then push cmd [Str ''NONSCALING'']
                           else push cmd [Str ''EXPANSION'', Num x])
                     else cmd);
          cmd = (if \<not> ups then push cmd [Str ''NOCREATE''] else cmd)
      in push cmd (Str ''ITEMS'' # items))"

definition insert_bf :: "BloomFilter \<Rightarrow> StringOrNumber list \<Rightarrow> InsertOptions option \<Rightarrow> BloomFilter" where
  "insert_bf this items options =
     this\<lparr>client := call (insert_cmd (name this) items options) (client this)\<rparr>"

section \<open>The wire grammar of insert\<close>

text \<open>
  The segments of the wire contract
  \<open>INSERT name [ERROR rate] [CAPACITY cap] [NONSCALING | EXPANSION rate] [NOCREATE] ITEMS item...\<close>,
  written as functions of the options so that the theorems below can name the part of a
  command they do not speak about. \<open>insert_cmd\<close> above is the source; these are the
  layout it is compared with.
\<close>

definition keyword_clause :: "string \<Rightarrow> jsnumber option \<Rightarrow> StringOrNumber list" where
  "keyword_clause kw v =
     (case v of None \<Rightarrow> [] | Some x \<Rightarrow> if truthy x then [Str kw, Num x] else [])"

definition scaling_clause :: "jsnumber option \<Rightarrow> StringOrNumber list" where
  "scaling_clause v =
     (case v of
        None \<Rightarrow> []
      | Some x \<Rightarrow>
          if truthy x
          then (if lt_zero x then [Str ''NONSCALING''] else [Str ''EXPANSION'', Num x])
          else [])"

definition nocreate_clause :: "bool option \<Rightarrow> StringOrNumber list" where
  "nocreate_clause u = (if u = Some False then [Str ''NOCREATE''] else [])"

definition insert_clauses :: "InsertOptions \<Rightarrow> StringOrNumber list" where
  "insert_clauses opts =
     keyword_clause ''ERROR'' (errorRate opts) @ keyword_clause ''CAPACITY'' (capacity opts)
       @ scaling_clause (expansionRate opts) @ nocreate_clause (upsert opts)"

text \<open>
  The last segment of the wire contract
  \<open>RESERVE name errorRate capacity [NONSCALING | EXPANSION rate]\<close>, as a function of
  the optional third argument of \<open>reserve\<close>.
\<close>

definition reserve_scaling :: "jsnumber option \<Rightarrow> StringOrNumber list" where
  "reserve_scaling expansion =
     (let rate = (case expansion of None \<Rightarrow> Fin 2 | Some x \<Rightarrow> x)
      in if le_zero rate then [Str ''NONSCALING''] else [Str ''EXPANSION'', Num rate])"

text \<open>
  Whether a call left the transport as it found it: the reading of ``nothing was
  submitted'' used for the batch operations.
\<close>

definition nothing_submitted :: "BloomFilter \<Rightarrow> BloomFilter \<Rightarrow> bool" where
  "nothing_submitted before after = (client after = client before)"


section \<open>Layout of the built commands\<close>

lemma insert_cmd_layout:
  "insert_cmd nm items (Some opts)
   = Str ''BF.INSERT'' # Str nm # insert_clauses opts @ Str ''ITEMS'' # items"
  by (simp add: insert_cmd_def push_def insert_clauses_def keyword_clause_def
      scaling_clause_def nocreate_clause_def split: option.splits)

lemma insert_cmd_default_options:
  "insert_cmd nm items None = insert_cmd nm items (Some no_options)"
  by (simp add: insert_cmd_def)

lemma insert_clauses_no_options: "insert_clauses no_options = []"
  by (simp add: insert_clauses_def no_options_def keyword_clause_def scaling_clause_def
      nocreate_clause_def)

lemma insert_cmd_plain:
  "insert_cmd nm items None = Str ''BF.INSERT'' # Str nm # Str ''ITEMS'' # items"
  by (simp add: insert_cmd_default_options insert_cmd_layout insert_clauses_no_options)

lemma insert_clauses_no_ITEMS: "Str ''ITEMS'' \<notin> set (insert_clauses opts)"
  by (simp add: insert_clauses_def keyword_clause_def scaling_clause_def nocreate_clause_def
      split: option.splits)

lemma insert_submits:
  "client (insert_bf this items options)
   = client this @ [insert_cmd (name this) items options]"
  by (simp add: insert_bf_def call_def)

lemma reserve_submits:
  "client (reserve this e c x) = client this @ [reserve_cmd (name this) e c x]"
  by (simp add: reserve_def callOne_def)

lemma reserve_cmd_layout:
  "reserve_cmd nm e c x = Str ''BF.RESERVE'' # Str nm # Num e # Num c # reserve_scaling x"
  by (simp add: reserve_cmd_def reserve_scaling_def Let_def)

text \<open>
  The name and the items are the caller's data and pass through verbatim, so the string
  \<open>ITEMS\<close> occurs once for the marker and once more for each of them that is that
  string.
\<close>

lemma insert_cmd_count_ITEMS:
  "count_list (insert_cmd nm items (Some opts)) (Str ''ITEMS'')
   = 1 + count_list (Str nm # items) (Str ''ITEMS'')"
proof -
  have "count_list (insert_clauses opts) (Str ''ITEMS'') = 0"
    using insert_clauses_no_ITEMS [of opts] by (simp add: count_list_0_iff)
  then show ?thesis
    by (simp add: insert_cmd_layout)
qed

text \<open>Every falsy number in an option leaves the command as an absent option does.\<close>

lemma insert_cmd_falsy_errorRate:
  "\<not> truthy z \<Longrightarrow>
   insert_cmd nm items (Some (opts\<lparr>errorRate := Some z\<rparr>))
   = insert_cmd nm items (Some (opts\<lparr>errorRate := None\<rparr>))"
  by (simp add: insert_cmd_def)

lemma insert_cmd_falsy_capacity:
  "\<not> truthy z \<Longrightarrow>
   insert_cmd nm items (Some (opts\<lparr>capacity := Some z\<rparr>))
   = insert_cmd nm items (Some (opts\<lparr>capacity := None\<rparr>))"
  by (simp add: insert_cmd_def)

lemma insert_cmd_falsy_expansionRate:
  "\<not> truthy z \<Longrightarrow>
   insert_cmd nm items (Some (opts\<lparr>expansionRate := Some z\<rparr>))
   = insert_cmd nm items (Some (opts\<lparr>expansionRate := None\<rparr>))"
  by (simp add: insert_cmd_def)

section \<open>Argument assembly of insert\<close>

text \<open>
  C1. For every filter name, \<open>insert\<close> with the items \<open>["a","b"]\<close> and the options
  \<open>{errorRate: 0.01, capacity: 100, expansionRate: -1, upsert: false}\<close> builds exactly
  the insert token (spelled \<open>BF.INSERT\<close> in the source), the name, \<open>ERROR 0.01\<close>,
  \<open>CAPACITY 100\<close>, \<open>NONSCALING\<close>, \<open>NOCREATE\<close>, \<open>ITEMS\<close>, \<open>a\<close>, \<open>b\<close>, in this
  order.
\<close>

theorem insert_full_options_sequence:
  "insert_cmd nm [Str ''a'', Str ''b'']
     (Some \<lparr>errorRate = Some (Fin 0.01), capacity = Some (Fin 100),
            expansionRate = Some (Fin (- 1)), upsert = Some False\<rparr>)
   = [Str ''BF.INSERT'', Str nm, Str ''ERROR'', Num (Fin 0.01), Str ''CAPACITY'', Num (Fin 100),
      Str ''NONSCALING'', Str ''NOCREATE'', Str ''ITEMS'', Str ''a'', Str ''b'']"
  by (simp add: insert_cmd_def push_def)

text \<open>
  C4. With no options, \<open>insert\<close> builds the insert token, the name, \<open>ITEMS\<close> and the
  items, for every items array, and so \<open>INSERT <name> ITEMS 1 2 3\<close> for \<open>[1,2,3]\<close>:
  no optional clause is emitted. The same holds whether the options argument is omitted
  or is the empty object.
\<close>

theorem insert_without_options:
  "insert_cmd nm items None = Str ''BF.INSERT'' # Str nm # Str ''ITEMS'' # items
   \<and> insert_cmd nm items (Some no_options) = Str ''BF.INSERT'' # Str nm # Str ''ITEMS'' # items
   \<and> insert_cmd nm [Num (Fin 1), Num (Fin 2), Num (Fin 3)] None
       = [Str ''BF.INSERT'', Str nm, Str ''ITEMS'', Num (Fin 1), Num (Fin 2), Num (Fin 3)]"
  by (simp add: insert_cmd_plain insert_cmd_layout insert_clauses_no_options)

text \<open>
  C7. \<open>insert\<close> appends \<open>NOCREATE\<close> if and only if \<open>upsert\<close> is explicitly false. The
  option has three possible states. When it is \<open>false\<close> the marker stands between the
  scaling clause and \<open>ITEMS\<close>; when it is \<open>true\<close> or omitted (the default is
  \<open>true\<close>), or when no options are given at all, \<open>ITEMS\<close> follows the scaling clause
  directly; and no other clause is the \<open>NOCREATE\<close> token.
\<close>

theorem insert_nocreate_iff_upsert_false:
  "insert_cmd nm items
     (Some \<lparr>errorRate = e, capacity = c, expansionRate = x, upsert = Some False\<rparr>)
   = Str ''BF.INSERT'' # Str nm # keyword_clause ''ERROR'' e @ keyword_clause ''CAPACITY'' c
       @ scaling_clause x @ Str ''NOCREATE'' # Str ''ITEMS'' # items
   \<and> insert_cmd nm items
       (Some \<lparr>errorRate = e, capacity = c, expansionRate = x, upsert = Some True\<rparr>)
     = Str ''BF.INSERT'' # Str nm # keyword_clause ''ERROR'' e @ keyword_clause ''CAPACITY'' c
         @ scaling_clause x @ Str ''ITEMS'' # items
   \<and> insert_cmd nm items
       (Some \<lparr>errorRate = e, capacity = c, expansionRate = x, upsert = None\<rparr>)
     = Str ''BF.INSERT'' # Str nm # keyword_clause ''ERROR'' e @ keyword_clause ''CAPACITY'' c
         @ scaling_clause x @ Str ''ITEMS'' # items
   \<and> insert_cmd nm items None = Str ''BF.INSERT'' # Str nm # Str ''ITEMS'' # items
   \<and> Str ''NOCREATE''
       \<notin> set (keyword_clause ''ERROR'' e @ keyword_clause ''CAPACITY'' c @ scaling_clause x)"
proof -
  have "Str ''NOCREATE''
        \<notin> set (keyword_clause ''ERROR'' e @ keyword_clause ''CAPACITY'' c @ scaling_clause x)"
    by (simp add: keyword_clause_def scaling_clause_def split: option.splits)
  then show ?thesis
    by (simp add: insert_cmd_layout insert_cmd_plain insert_clauses_def nocreate_clause_def)
qed

text \<open>
  C9 as stated: every command built by \<open>insert\<close> contains the \<open>ITEMS\<close> token
  exactly once, for every input. The items are passed through as they are, so an item
  that is the string \<open>ITEMS\<close> stands in the command beside the marker: on the filter
  \<open>f\<close>, with the items \<open>["ITEMS"]\<close> and the options \<open>{}\<close>, the token occurs twice.
\<close>

theorem insert_items_twice_counterexample:
  "insert_cmd ''f'' [Str ''ITEMS''] (Some no_options)
   = [Str ''BF.INSERT'', Str ''f'', Str ''ITEMS'', Str ''ITEMS'']
   \<and> count_list (insert_cmd ''f'' [Str ''ITEMS''] (Some no_options)) (Str ''ITEMS'') = 2
   \<and> count_list (insert_cmd ''f'' [Str ''ITEMS''] (Some no_options)) (Str ''ITEMS'') \<noteq> 1"
  by (simp add: insert_cmd_layout insert_clauses_no_options)

text \<open>
  C9 as amended: every command built by \<open>insert\<close> is the insert token, the name, the
  optional clauses, the \<open>ITEMS\<close> marker and then the items, for every input, the empty
  items array included. The builder emits the marker once, after all optional clauses,
  none of which is that token, and right before the items. In the whole command the
  string \<open>ITEMS\<close> occurs once more than it occurs among the name and the items, so
  exactly once when neither the name nor any item is that string. With empty items and
  no options the command is exactly \<open>[BF.INSERT, name, ITEMS]\<close>, and that command is
  submitted.
\<close>

theorem insert_items_marker:
  "insert_cmd nm items (Some opts)
   = Str ''BF.INSERT'' # Str nm # insert_clauses opts @ Str ''ITEMS'' # items
   \<and> Str ''ITEMS'' \<notin> set (insert_clauses opts)
   \<and> insert_cmd nm items None = Str ''BF.INSERT'' # Str nm # Str ''ITEMS'' # items
   \<and> count_list (insert_cmd nm items (Some opts)) (Str ''ITEMS'')
     = 1 + count_list (Str nm # items) (Str ''ITEMS'')
   \<and> count_list (insert_cmd nm items None) (Str ''ITEMS'')
     = 1 + count_list (Str nm # items) (Str ''ITEMS'')
   \<and> (nm \<noteq> ''ITEMS'' \<and> Str ''ITEMS'' \<notin> set items \<longrightarrow>
        count_list (insert_cmd nm items (Some opts)) (Str ''ITEMS'') = 1
        \<and> count_list (insert_cmd nm items None) (Str ''ITEMS'') = 1)
   \<and> insert_cmd nm [] (Some no_options) = [Str ''BF.INSERT'', Str nm, Str ''ITEMS'']
   \<and> client (insert_bf this [] (Some no_options))
       = client this @ [[Str ''BF.INSERT'', Str (name this), Str ''ITEMS'']]"
proof -
  have some: "count_list (insert_cmd nm items (Some opts)) (Str ''ITEMS'')
      = 1 + count_list (Str nm # items) (Str ''ITEMS'')"
    by (rule insert_cmd_count_ITEMS)
  have none: "count_list (insert_cmd nm items None) (Str ''ITEMS'')
      = 1 + count_list (Str nm # items) (Str ''ITEMS'')"
    unfolding insert_cmd_default_options by (rule insert_cmd_count_ITEMS)
  have once: "count_list (Str nm # items) (Str ''ITEMS'') = 0"
    if "nm \<noteq> ''ITEMS''" and "Str ''ITEMS'' \<notin> set items"
    using that by (simp add: count_list_0_iff)
  have layout: "insert_cmd nm items (Some opts)
      = Str ''BF.INSERT'' # Str nm # insert_clauses opts @ Str ''ITEMS'' # items"
    "Str ''ITEMS'' \<notin> set (insert_clauses opts)"
    "insert_cmd nm items None = Str ''BF.INSERT'' # Str nm # Str ''ITEMS'' # items"
    "insert_cmd nm [] (Some no_options) = [Str ''BF.INSERT'', Str nm, Str ''ITEMS'']"
    "client (insert_bf this [] (Some no_options))
       = client this @ [[Str ''BF.INSERT'', Str (name this), Str ''ITEMS'']]"
    by (simp_all add: insert_cmd_layout insert_clauses_no_ITEMS insert_cmd_plain
        insert_clauses_no_options insert_submits)
  have unique: "nm \<noteq> ''ITEMS'' \<and> Str ''ITEMS'' \<notin> set items \<longrightarrow>
        count_list (insert_cmd nm items (Some opts)) (Str ''ITEMS'') = 1
        \<and> count_list (insert_cmd nm items None) (Str ''ITEMS'') = 1"
    using some none once by simp
  show ?thesis
    by (intro conjI) (rule layout some none unique)+
qed

theorem insert_items_marker_witness:
  "''f'' \<noteq> ''ITEMS'' \<and> Str ''ITEMS'' \<notin> set [Str ''a'', Str ''b'']
   \<and> count_list (insert_cmd ''f'' [Str ''a'', Str ''b''] (Some no_options)) (Str ''ITEMS'') = 1
   \<and> count_list (insert_cmd ''f'' [Str ''a'', Str ''b''] None) (Str ''ITEMS'') = 1"
  using insert_items_marker [where nm = "''f''" and items = "[Str ''a'', Str ''b'']"
      and opts = no_options]
  by simp

text \<open>
  C10. The numeric options of \<open>insert\<close> are tested for truthiness: with
  \<open>errorRate = 0\<close>, with \<open>capacity = 0\<close> or with \<open>expansionRate = 0\<close> the built
  command is the one built when that option is absent, whatever the other options are,
  and with both \<open>errorRate\<close> and \<open>capacity\<close> zero it carries neither an \<open>ERROR\<close>
  nor a \<open>CAPACITY\<close> clause.
\<close>

theorem insert_zero_option_omitted:
  "insert_cmd nm items (Some (opts\<lparr>errorRate := Some (Fin 0)\<rparr>))
   = insert_cmd nm items (Some (opts\<lparr>errorRate := None\<rparr>))
   \<and> insert_cmd nm items (Some (opts\<lparr>capacity := Some (Fin 0)\<rparr>))
     = insert_cmd nm items (Some (opts\<lparr>capacity := None\<rparr>))
   \<and> insert_cmd nm items (Some (opts\<lparr>expansionRate := Some (Fin 0)\<rparr>))
     = insert_cmd nm items (Some (opts\<lparr>expansionRate := None\<rparr>))
   \<and> insert_cmd nm items
       (Some \<lparr>errorRate = Some (Fin 0), capacity = Some (Fin 0), expansionRate = x, upsert = u\<rparr>)
     = Str ''BF.INSERT'' # Str nm # scaling_clause x @ nocreate_clause u @ Str ''ITEMS'' # items"
proof -
  have "insert_cmd nm items
          (Some \<lparr>errorRate = Some (Fin 0), capacity = Some (Fin 0), expansionRate = x, upsert = u\<rparr>)
        = Str ''BF.INSERT'' # Str nm # scaling_clause x @ nocreate_clause u @ Str ''ITEMS'' # items"
    by (simp add: insert_cmd_layout insert_clauses_def keyword_clause_def)
  then show ?thesis
    by (simp add: insert_cmd_falsy_errorRate insert_cmd_falsy_capacity
        insert_cmd_falsy_expansionRate)
qed

section \<open>The scaling clause\<close>

text \<open>
  C6. When \<open>reserve\<close> is called without an expansion rate the default \<open>2\<close> is used:
  the command built and submitted ends with \<open>EXPANSION 2\<close>.
\<close>

theorem reserve_default_expansion:
  "reserve_cmd nm e c None
   = [Str ''BF.RESERVE'', Str nm, Num e, Num c, Str ''EXPANSION'', Num (Fin 2)]
   \<and> client (reserve this e c None)
     = client this
         @ [[Str ''BF.RESERVE'', Str (name this), Num e, Num c, Str ''EXPANSION'', Num (Fin 2)]]"
  by (simp add: reserve_submits reserve_cmd_def)

text \<open>
  C2. \<open>reserve\<close> with an expansion rate of zero, or any rate at most zero, builds
  \<open>[RESERVE, name, errorRate, capacity, NONSCALING]\<close>; with a positive rate it builds
  \<open>[RESERVE, name, errorRate, capacity, EXPANSION, rate]\<close> with the rate unchanged. This
  holds for every error rate and capacity, the valid ones among them. Negative zero and
  negative infinity are at most zero, positive infinity is positive.
\<close>

theorem reserve_scaling_clause:
  "(r \<le> 0 \<longrightarrow>
      reserve_cmd nm e c (Some (Fin r))
      = [Str ''BF.RESERVE'', Str nm, Num e, Num c, Str ''NONSCALING''])
   \<and> (0 < r \<longrightarrow>
        reserve_cmd nm e c (Some (Fin r))
        = [Str ''BF.RESERVE'', Str nm, Num e, Num c, Str ''EXPANSION'', Num (Fin r)])
   \<and> reserve_cmd nm e c (Some (Fin 0))
     = [Str ''BF.RESERVE'', Str nm, Num e, Num c, Str ''NONSCALING'']
   \<and> reserve_cmd nm e c (Some NegZero)
     = [Str ''BF.RESERVE'', Str nm, Num e, Num c, Str ''NONSCALING'']
   \<and> reserve_cmd nm e c (Some NegInf)
     = [Str ''BF.RESERVE'', Str nm, Num e, Num c, Str ''NONSCALING'']
   \<and> reserve_cmd nm e c (Some PosInf)
     = [Str ''BF.RESERVE'', Str nm, Num e, Num c, Str ''EXPANSION'', Num PosInf]"
  by (simp add: reserve_cmd_def)

theorem reserve_scaling_clause_witness:
  "(- 3 :: rat) \<le> 0
   \<and> reserve_cmd ''f'' (Fin 0.01) (Fin 100) (Some (Fin (- 3)))
     = [Str ''BF.RESERVE'', Str ''f'', Num (Fin 0.01), Num (Fin 100), Str ''NONSCALING'']
   \<and> (0 :: rat) < 4
   \<and> reserve_cmd ''f'' (Fin 0.01) (Fin 100) (Some (Fin 4))
     = [Str ''BF.RESERVE'', Str ''f'', Num (Fin 0.01), Num (Fin 100), Str ''EXPANSION'',
        Num (Fin 4)]"
  using reserve_scaling_clause [where r = "- 3" and nm = "''f''" and e = "Fin 0.01" and c = "Fin 100"]
    reserve_scaling_clause [where r = 4 and nm = "''f''" and e = "Fin 0.01" and c = "Fin 100"]
  by simp

text \<open>
  C3. In \<open>insert\<close> an expansion rate of exactly zero emits no scaling clause at all:
  the capacity clause is followed directly by the \<open>NOCREATE\<close> position, and neither
  \<open>NONSCALING\<close> nor \<open>EXPANSION\<close> is among the other clauses. A negative rate emits
  \<open>NONSCALING\<close> there and a positive rate emits \<open>EXPANSION\<close> and the rate. So the
  threshold of \<open>insert\<close> is strictly negative, while \<open>reserve\<close> with rate zero builds
  \<open>NONSCALING\<close>.
\<close>

theorem insert_scaling_threshold:
  "insert_cmd nm items
     (Some \<lparr>errorRate = e, capacity = c, expansionRate = Some (Fin 0), upsert = u\<rparr>)
   = Str ''BF.INSERT'' # Str nm # keyword_clause ''ERROR'' e @ keyword_clause ''CAPACITY'' c
       @ nocreate_clause u @ Str ''ITEMS'' # items
   \<and> Str ''NONSCALING''
       \<notin> set (keyword_clause ''ERROR'' e @ keyword_clause ''CAPACITY'' c @ nocreate_clause u)
   \<and> Str ''EXPANSION''
       \<notin> set (keyword_clause ''ERROR'' e @ keyword_clause ''CAPACITY'' c @ nocreate_clause u)
   \<and> (r < 0 \<longrightarrow>
        insert_cmd nm items
          (Some \<lparr>errorRate = e, capacity = c, expansionRate = Some (Fin r), upsert = u\<rparr>)
        = Str ''BF.INSERT'' # Str nm # keyword_clause ''ERROR'' e @ keyword_clause ''CAPACITY'' c
            @ Str ''NONSCALING'' # nocreate_clause u @ Str ''ITEMS'' # items)
   \<and> (0 < r \<longrightarrow>
        insert_cmd nm items
          (Some \<lparr>errorRate = e, capacity = c, expansionRate = Some (Fin r), upsert = u\<rparr>)
        = Str ''BF.INSERT'' # Str nm # keyword_clause ''ERROR'' e @ keyword_clause ''CAPACITY'' c
            @ Str ''EXPANSION'' # Num (Fin r) # nocreate_clause u @ Str ''ITEMS'' # items)
   \<and> reserve_cmd nm e' c' (Some (Fin 0))
     = [Str ''BF.RESERVE'', Str nm, Num e', Num c', Str ''NONSCALING'']"
proof -
  have absent: "Str ''NONSCALING''
        \<notin> set (keyword_clause ''ERROR'' e @ keyword_clause ''CAPACITY'' c @ nocreate_clause u)"
    "Str ''EXPANSION''
        \<notin> set (keyword_clause ''ERROR'' e @ keyword_clause ''CAPACITY'' c @ nocreate_clause u)"
    by (simp_all add: keyword_clause_def nocreate_clause_def split: option.splits)
  have rsv: "reserve_cmd nm e' c' (Some (Fin 0))
     = [Str ''BF.RESERVE'', Str nm, Num e', Num c', Str ''NONSCALING'']"
    by (simp add: reserve_cmd_def)
  show ?thesis
    using absent rsv by (simp add: insert_cmd_layout insert_clauses_def scaling_clause_def)
qed

theorem insert_scaling_threshold_witness:
  "(- 1 :: rat) < 0
   \<and> insert_cmd ''f'' [Str ''a'']
       (Some \<lparr>errorRate = None, capacity = Some (Fin 100), expansionRate = Some (Fin (- 1)),
              upsert = None\<rparr>)
     = [Str ''BF.INSERT'', Str ''f'', Str ''CAPACITY'', Num (Fin 100), Str ''NONSCALING'',
        Str ''ITEMS'', Str ''a'']
   \<and> (0 :: rat) < 4
   \<and> insert_cmd ''f'' [Str ''a'']
       (Some \<lparr>errorRate = None, capacity = Some (Fin 100), expansionRate = Some (Fin 4),
              upsert = None\<rparr>)
     = [Str ''BF.INSERT'', Str ''f'', Str ''CAPACITY'', Num (Fin 100), Str ''EXPANSION'',
        Num (Fin 4), Str ''ITEMS'', Str ''a'']"
  using insert_scaling_threshold [where r = "- 1" and nm = "''f''" and items = "[Str ''a'']"
      and e = None and c = "Some (Fin 100)" and u = None]
    insert_scaling_threshold [where r = 4 and nm = "''f''" and items = "[Str ''a'']"
      and e = None and c = "Some (Fin 100)" and u = None]
  by (simp add: keyword_clause_def nocreate_clause_def)

section \<open>What reaches the transport\<close>

text \<open>
  C8. Every operation submits one command whose first element is the operation's token
  and whose second is the filter's name; the operation's own arguments follow, and the
  whole command is given for each operation: the error rate, the capacity and the
  scaling clause for \<open>reserve\<close>; the item or the items for \<open>add\<close>, \<open>madd\<close>,
  \<open>exists\<close> and \<open>mexists\<close>; nothing for \<open>info\<close>; the optional clauses, the
  \<open>ITEMS\<close> marker and the items for \<open>insert\<close>.
\<close>

theorem command_starts_with_operation_and_name:
  "client (reserve this e c x)
   = client this
       @ [Str ''BF.RESERVE'' # Str (name this) # Num e # Num c # reserve_scaling x]
   \<and> reserve_cmd nm e c x = Str ''BF.RESERVE'' # Str nm # Num e # Num c # reserve_scaling x
   \<and> take 2 (reserve_cmd nm e c x) = [Str ''BF.RESERVE'', Str nm]
   \<and> client (add this item) = client this @ [[Str ''BF.ADD'', Str (name this), item]]
   \<and> client (madd this items) = client this @ [Str ''BF.MADD'' # Str (name this) # items]
   \<and> client (exists this item) = client this @ [[Str ''BF.EXISTS'', Str (name this), item]]
   \<and> client (mexists this items) = client this @ [Str ''BF.MEXISTS'' # Str (name this) # items]
   \<and> client (info this) = client this @ [[Str ''BF.INFO'', Str (name this)]]
   \<and> client (insert_bf this items (Some opts))
     = client this
         @ [Str ''BF.INSERT'' # Str (name this) # insert_clauses opts @ Str ''ITEMS'' # items]
   \<and> client (insert_bf this items None)
     = client this @ [Str ''BF.INSERT'' # Str (name this) # Str ''ITEMS'' # items]
   \<and> insert_cmd nm items (Some opts)
     = Str ''BF.INSERT'' # Str nm # insert_clauses opts @ Str ''ITEMS'' # items
   \<and> insert_cmd nm items None = Str ''BF.INSERT'' # Str nm # Str ''ITEMS'' # items
   \<and> client (insert_bf this items options)
     = client this @ [insert_cmd (name this) items options]
   \<and> take 2 (insert_cmd nm items options) = [Str ''BF.INSERT'', Str nm]"
proof -
  have "take 2 (reserve_cmd nm e c x) = [Str ''BF.RESERVE'', Str nm]"
    by (simp add: reserve_cmd_layout)
  moreover have "take 2 (insert_cmd nm items options) = [Str ''BF.INSERT'', Str nm]"
    by (cases options) (simp_all add: insert_cmd_plain insert_cmd_layout)
  moreover have "client (reserve this e c x)
      = client this
          @ [Str ''BF.RESERVE'' # Str (name this) # Num e # Num c # reserve_scaling x]"
    by (simp add: reserve_submits reserve_cmd_layout)
  ultimately show ?thesis
    by (simp add: reserve_cmd_layout insert_submits insert_cmd_layout insert_cmd_plain
        add_def madd_def exists_def mexists_def info_def call_def)
qed

text \<open>
  C5 as stated: \<open>madd\<close>, \<open>mexists\<close> and \<open>insert\<close> with an empty items array fail
  before anything is submitted. The source has no such check. On a filter named \<open>f\<close>
  whose transport has seen nothing, each of the three leaves one command on the
  transport.
\<close>

theorem empty_batch_counterexample:
  "\<not> nothing_submitted \<lparr>name = ''f'', client = []\<rparr> (madd \<lparr>name = ''f'', client = []\<rparr> [])
   \<and> client (madd \<lparr>name = ''f'', client = []\<rparr> []) = [[Str ''BF.MADD'', Str ''f'']]
   \<and> \<not> nothing_submitted \<lparr>name = ''f'', client = []\<rparr> (mexists \<lparr>name = ''f'', client = []\<rparr> [])
   \<and> client (mexists \<lparr>name = ''f'', client = []\<rparr> []) = [[Str ''BF.MEXISTS'', Str ''f'']]
   \<and> \<not> nothing_submitted \<lparr>name = ''f'', client = []\<rparr>
         (insert_bf \<lparr>name = ''f'', client = []\<rparr> [] None)
   \<and> client (insert_bf \<lparr>name = ''f'', client = []\<rparr> [] None)
     = [[Str ''BF.INSERT'', Str ''f'', Str ''ITEMS'']]"
  by (simp add: nothing_submitted_def madd_def mexists_def call_def insert_submits
      insert_cmd_plain)

text \<open>
  C5 as amended: the batch operations make no local check of their items. For every
  filter, \<open>madd\<close>, \<open>mexists\<close> and \<open>insert\<close> with an empty items array each submit
  exactly one command, \<open>[BF.MADD, name]\<close>, \<open>[BF.MEXISTS, name]\<close> and the insert
  command that ends with the \<open>ITEMS\<close> marker, so an empty batch is sent.
\<close>

theorem empty_batch_is_submitted:
  "client (madd this []) = client this @ [[Str ''BF.MADD'', Str (name this)]]
   \<and> client (mexists this []) = client this @ [[Str ''BF.MEXISTS'', Str (name this)]]
   \<and> client (insert_bf this [] (Some opts))
     = client this @ [Str ''BF.INSERT'' # Str (name this) # insert_clauses opts @ [Str ''ITEMS'']]
   \<and> client (insert_bf this [] None)
     = client this @ [[Str ''BF.INSERT'', Str (name this), Str ''ITEMS'']]
   \<and> \<not> nothing_submitted this (madd this [])
   \<and> \<not> nothing_submitted this (mexists this [])
   \<and> \<not> nothing_submitted this (insert_bf this [] options)"
  by (simp add: nothing_submitted_def madd_def mexists_def call_def insert_submits
      insert_cmd_plain insert_cmd_layout)


end
